theory Spec2Isabelle
  imports Main "HOL-Library.Char_ord" "HOL-Library.List_Lexorder"
begin

section \<open>GCLQL: the query compiler of backend/app/utils/gclql\_query\_parser\_utils.py\<close>

text \<open>
  A shallow embedding of the query compiler: the field resolver (\<open>Field.to_sql\<close>), the SQL
  translator (\<open>SqlTranslator\<close>) and the query assembler with its recovery layer
  (\<open>QueryParser.parse_query\<close>).

  Python strings are modelled as \<open>string\<close>, one \<open>char\<close> per code point below 256; the
  functions of the standard library that the source calls on strings are written out below
  for such strings.  Exceptions are values of the type \<open>error\<close>, and a function that can
  raise returns \<open>error + 'a\<close>.
\<close>

subsection \<open>Python strings\<close>

definition endswith :: "string \<Rightarrow> string \<Rightarrow> bool" where
  \<comment> \<open>\<open>s.endswith(suf)\<close>\<close>
  "endswith s suf = (length suf \<le> length s \<and> drop (length s - length suf) s = suf)"

definition startswith :: "string \<Rightarrow> string \<Rightarrow> bool" where
  \<comment> \<open>\<open>s.startswith(pre)\<close>\<close>
  "startswith s pre = (take (length pre) s = pre)"

definition last_chars :: "nat \<Rightarrow> string \<Rightarrow> string" where
  \<comment> \<open>the slice \<open>s[-n:]\<close> for \<open>n > 0\<close>: the whole string when it is shorter than \<open>n\<close>\<close>
  "last_chars n s = drop (length s - n) s"

definition drop_last_chars :: "nat \<Rightarrow> string \<Rightarrow> string" where
  \<comment> \<open>the slice \<open>s[:-n]\<close> for \<open>n > 0\<close>: empty when the string is shorter than \<open>n\<close>\<close>
  "drop_last_chars n s = take (length s - n) s"

definition is_space :: "char \<Rightarrow> bool" where
  \<comment> \<open>\<open>c.isspace()\<close>, which is also the class \<open>\s\<close> of \<open>re\<close> on \<open>str\<close>\<close>
  "is_space c =
     (c \<in> set [CHR 0x09, CHR 0x0A, CHR 0x0B, CHR 0x0C, CHR 0x0D, CHR 0x1C, CHR 0x1D, CHR 0x1E,
                CHR 0x1F, CHR 0x20, CHR 0x85, CHR 0xA0])"

definition is_digit :: "char \<Rightarrow> bool" where
  "is_digit c = (CHR ''0'' \<le> c \<and> c \<le> CHR ''9'')"

definition lstrip :: "string \<Rightarrow> string" where
  "lstrip s = dropWhile is_space s"

definition rstrip :: "string \<Rightarrow> string" where
  "rstrip s = rev (dropWhile is_space (rev s))"

definition strip :: "string \<Rightarrow> string" where
  \<comment> \<open>\<open>s.strip()\<close>\<close>
  "strip s = rstrip (lstrip s)"

fun join :: "string \<Rightarrow> string list \<Rightarrow> string" where
  \<comment> \<open>\<open>sep.join(xs)\<close>\<close>
  "join sep [] = []"
| "join sep [x] = x"
| "join sep (x # y # ys) = x @ sep @ join sep (y # ys)"

definition digit_char :: "nat \<Rightarrow> char" where
  "digit_char d = char_of (48 + d)"

fun show_nat :: "nat \<Rightarrow> string" where
  "show_nat n = (if n < 10 then [digit_char n] else show_nat (n div 10) @ [digit_char (n mod 10)])"

declare show_nat.simps [simp del]

definition show_int :: "int \<Rightarrow> string" where
  \<comment> \<open>\<open>str(i)\<close> for an \<open>int\<close>\<close>
  "show_int i = (if i < 0 then CHR ''-'' # show_nat (nat (- i)) else show_nat (nat i))"

subsection \<open>Values, errors and fields\<close>

text \<open>
  The value of a comparison is whatever \<open>AstTransformer.simple_value\<close> produces: \<open>None\<close>
  (no value), an \<open>int\<close>, a \<open>float\<close> or a \<open>str\<close>.  The translator never computes with a float;
  it only formats it (\<open>str\<close>) and converts it (\<open>int\<close>), so a float is carried by the text
  \<open>str\<close> gives for it.
\<close>

datatype pyval = NoneV | IntV int | FloatV string | StrV string

fun py_str :: "pyval \<Rightarrow> string" where
  \<comment> \<open>\<open>str(value)\<close>, as the f-strings format a value\<close>
  "py_str NoneV = ''None''"
| "py_str (IntV i) = show_int i"
| "py_str (FloatV t) = t"
| "py_str (StrV s) = s"

fun type_name :: "pyval \<Rightarrow> string" where
  \<comment> \<open>\<open>type(value).__name__\<close>\<close>
  "type_name NoneV = ''NoneType''"
| "type_name (IntV i) = ''int''"
| "type_name (FloatV t) = ''float''"
| "type_name (StrV s) = ''str''"

fun is_number :: "pyval \<Rightarrow> bool" where
  \<comment> \<open>\<open>isinstance(value, int | float)\<close>\<close>
  "is_number (IntV i) = True"
| "is_number (FloatV t) = True"
| "is_number v = False"

fun is_str :: "pyval \<Rightarrow> bool" where
  \<comment> \<open>\<open>isinstance(value, str)\<close>\<close>
  "is_str (StrV s) = True"
| "is_str v = False"

fun is_int :: "pyval \<Rightarrow> bool" where
  \<comment> \<open>\<open>isinstance(value, int)\<close>\<close>
  "is_int (IntV i) = True"
| "is_int v = False"

datatype error =
    SearchValidationError (message: string) (error_type: string)
      (field_name: "string option") (operation: "string option") (user_message: "string option")
  | RuntimeError string
  | ValueError string
  | OverflowError
  | IndexError
  | KeyError string
  | LarkError

text \<open>
  \<open>int(value)\<close> as the validation of id fields tries it: on a \<open>str\<close> it succeeds exactly on
  an integer literal (blanks around it, a sign, digits with single underscores between
  them); on a float it raises \<open>OverflowError\<close> for an infinity and \<open>ValueError\<close> for a
  NaN.
\<close>

fun digits_underscores :: "bool \<Rightarrow> string \<Rightarrow> bool" where
  \<comment> \<open>the flag says that the previous character was a digit\<close>
  "digits_underscores prev [] = prev"
| "digits_underscores prev (c # cs) =
     (if is_digit c then digits_underscores True cs
      else if c = CHR ''_'' \<and> prev then digits_underscores False cs
      else False)"

definition int_literal :: "string \<Rightarrow> bool" where
  "int_literal s =
     (let t = strip s;
          u = (case t of c # cs \<Rightarrow> if c = CHR ''+'' \<or> c = CHR ''-'' then cs else t | [] \<Rightarrow> t)
      in digits_underscores False u)"

datatype int_conversion = IntOk | IntValueError | IntTypeError | IntOverflowError

fun py_int :: "pyval \<Rightarrow> int_conversion" where
  "py_int NoneV = IntTypeError"
| "py_int (IntV i) = IntOk"
| "py_int (FloatV t) =
     (if t = ''inf'' \<or> t = ''-inf'' then IntOverflowError
      else if t = ''nan'' then IntValueError else IntOk)"
| "py_int (StrV s) = (if int_literal s then IntOk else IntValueError)"

text \<open>A field is its tuple of identifier segments; a dictionary \<open>dict[str, str]\<close> is an
  association list (keys distinct, in insertion order), read with \<open>map_of\<close>.\<close>

datatype field = Field (parts: "string list")

type_synonym schema = "(string \<times> string) list"

subsection \<open>The field resolver: \<open>Field.to_sql\<close>\<close>

definition base_field_of :: "string \<Rightarrow> string" where
  \<comment> \<open>lines 111--113: \<open>if base_field[-5:] == "_name": base_field = base_field[:-5]\<close>\<close>
  "base_field_of p = (if last_chars 5 p = ''_name'' then drop_last_chars 5 p else p)"

definition ordering_ops :: "string list" where
  "ordering_ops = [''>'', ''<'', ''>='', ''<='']"

definition comparison_ops :: "string list" where
  "comparison_ops = [''='', ''!='', ''>'', ''<'', ''>='', ''<='']"

definition cast_ops :: "string list" where
  "cast_ops = [''='', ''!='', ''>'', ''<'', ''>='', ''<='', '':'']"

definition validate_metadata_operation :: "string option \<Rightarrow> pyval \<Rightarrow> string \<Rightarrow> error + unit" where
  "validate_metadata_operation op v fname =
     (case op of
        None \<Rightarrow> Inr ()
      | Some opr \<Rightarrow>
          if opr = [] then Inr ()
          else if opr \<in> set ordering_ops \<and> is_str v then
            Inl (SearchValidationError
              (''String comparison with operator '' @ [CHR 0x27] @ opr @ [CHR 0x27]
                 @ '' is not supported for metadata field '' @ [CHR 0x27] @ fname @ [CHR 0x27])
              ''invalid_operation'' (Some fname) (Some opr)
              (Some (''Cannot use '' @ [CHR 0x27] @ opr @ [CHR 0x27]
                 @ '' to compare text values in field '' @ [CHR 0x27] @ fname @ [CHR 0x27]
                 @ ''. Use '' @ [CHR 0x27] @ ''='' @ [CHR 0x27] @ '' for exact match, ''
                 @ [CHR 0x27] @ '':'' @ [CHR 0x27] @ '' for contains, or ''
                 @ [CHR 0x27] @ ''=~'' @ [CHR 0x27] @ '' for regex patterns.'')))
          else Inr ())"

definition validate_operation_compatibility ::
  "string \<Rightarrow> string option \<Rightarrow> pyval \<Rightarrow> string set \<Rightarrow> string set \<Rightarrow> string set \<Rightarrow> error + unit" where
  "validate_operation_compatibility fname op v available_metadata_fields string_fields id_fields =
     (case op of
        None \<Rightarrow> Inr ()
      | Some opr \<Rightarrow>
          if opr = [] \<or> v = NoneV then Inr ()
          else
            let is_metadata_field = (fname \<in> available_metadata_fields \<or> fname = ''metadata'') in
            if fname \<in> string_fields \<and> \<not> is_metadata_field
               \<and> opr \<in> set ordering_ops \<and> is_number v then
              Inl (SearchValidationError
                (''Cannot use numeric comparison operator '' @ [CHR 0x27] @ opr @ [CHR 0x27]
                   @ '' with string field '' @ [CHR 0x27] @ fname @ [CHR 0x27])
                ''invalid_operation'' (Some fname) (Some opr)
                (Some (''The field '' @ [CHR 0x27] @ fname @ [CHR 0x27]
                   @ '' contains text values and cannot be compared using ''
                   @ [CHR 0x27] @ opr @ [CHR 0x27]
                   @ ''. Use '' @ [CHR 0x27] @ ''='' @ [CHR 0x27] @ '' for exact match, ''
                   @ [CHR 0x27] @ '':'' @ [CHR 0x27] @ '' for contains, or ''
                   @ [CHR 0x27] @ ''=~'' @ [CHR 0x27] @ '' for pattern matching.'')))
            else if fname \<in> string_fields \<and> \<not> is_metadata_field
               \<and> opr \<in> set ordering_ops \<and> is_str v then
              Inl (SearchValidationError
                (''String comparison operator '' @ [CHR 0x27] @ opr @ [CHR 0x27]
                   @ '' is not supported for field '' @ [CHR 0x27] @ fname @ [CHR 0x27])
                ''invalid_operation'' (Some fname) (Some opr)
                (Some (''Cannot compare text values in '' @ [CHR 0x27] @ fname @ [CHR 0x27]
                   @ '' using '' @ [CHR 0x27] @ opr @ [CHR 0x27]
                   @ ''. Use '' @ [CHR 0x27] @ ''='' @ [CHR 0x27] @ '' for exact match, ''
                   @ [CHR 0x27] @ '':'' @ [CHR 0x27] @ '' for contains, or ''
                   @ [CHR 0x27] @ ''=~'' @ [CHR 0x27] @ '' for pattern matching.'')))
            else if (fname \<in> id_fields \<or> endswith fname ''_id'')
               \<and> \<not> is_int v \<and> opr \<in> set comparison_ops
               \<and> (py_int v = IntValueError \<or> py_int v = IntTypeError) then
              Inl (SearchValidationError
                (''Field '' @ [CHR 0x27] @ fname @ [CHR 0x27] @ '' expects integer values, got ''
                   @ [CHR 0x27] @ py_str v @ [CHR 0x27] @ '' ('' @ type_name v @ '')'')
                ''invalid_operation'' (Some fname) (Some opr)
                (Some (''The field '' @ [CHR 0x27] @ fname @ [CHR 0x27]
                   @ '' expects numeric ID values. Please provide an integer value instead of ''
                   @ [CHR 0x27] @ py_str v @ [CHR 0x27] @ ''.'')))
            else if (fname \<in> id_fields \<or> endswith fname ''_id'')
               \<and> \<not> is_int v \<and> opr \<in> set comparison_ops \<and> py_int v = IntOverflowError then
              Inl OverflowError
            else if is_metadata_field then validate_metadata_operation op v fname
            else Inr ())"

definition quote :: "string \<Rightarrow> string" where
  \<comment> \<open>\<open>f"'{part}'"\<close>\<close>
  "quote s = [CHR 0x27] @ s @ [CHR 0x27]"

definition json_field_of :: "string \<Rightarrow> string list \<Rightarrow> string" where
  \<comment> \<open>the JSON access path \<open>col->'k1'->...->>'kn'\<close> of lines 138--146 and 173--181, for a
      non-empty path\<close>
  "json_field_of col path =
     (if length path = 1 then col @ ''->>'' @ quote (hd path)
      else col @ ''->'' @ join ''->'' (map quote (butlast path)) @ ''->>'' @ quote (last path))"

definition numeric_cast :: "pyval \<Rightarrow> string option \<Rightarrow> bool" where
  \<comment> \<open>\<open>value is not None and isinstance(value, int | float) and op in ("=", ..., ":")\<close>\<close>
  "numeric_cast v op = (is_number v \<and> (case op of None \<Rightarrow> False | Some opr \<Rightarrow> opr \<in> set cast_ops))"

definition available_fields_of :: "schema \<Rightarrow> string set \<Rightarrow> string list" where
  \<comment> \<open>lines 159--161, sorted as line 168 sorts them: the schema's keys and the metadata
      fields, as one sorted list\<close>
  "available_fields_of schema_mapping available_metadata_fields =
     sort (map fst schema_mapping @ sorted_list_of_set available_metadata_fields)"

definition invalid_field_error :: "schema \<Rightarrow> string set \<Rightarrow> string list \<Rightarrow> error" where
  \<comment> \<open>lines 159--169\<close>
  "invalid_field_error schema_mapping available_metadata_fields ps =
     (let available_fields = available_fields_of schema_mapping available_metadata_fields;
          field_path = join ''.'' ps
      in SearchValidationError
           (''Field '' @ [CHR 0x27] @ field_path @ [CHR 0x27]
              @ '' does not exist in the database schema or metadata'')
           ''invalid_field'' (Some field_path) None
           (Some (''The field '' @ [CHR 0x27] @ field_path @ [CHR 0x27]
              @ '' is not available for searching. Available fields include: ''
              @ join '', '' (take 10 available_fields)
              @ (if length available_fields > 10 then ''...'' else ''''))))"

definition resolved_column :: "string \<Rightarrow> string list \<Rightarrow> string \<Rightarrow> pyval \<Rightarrow> string option \<Rightarrow> string" where
  \<comment> \<open>lines 171--193, reached with a column of the schema or the foreign key of an entity:
      the JSON path below an explicit \<open>metadata\<close> segment, or the column itself\<close>
  "resolved_column base_field ps sql_column v op =
     (if base_field = ''metadata'' \<and> length ps > 1 then
        (let json_field = json_field_of sql_column (tl ps)
         in if numeric_cast v op then ''('' @ json_field @ '')::numeric'' else json_field)
      else sql_column)"

definition to_sql ::
  "field \<Rightarrow> schema \<Rightarrow> pyval \<Rightarrow> string option \<Rightarrow> string set \<Rightarrow> string set \<Rightarrow> string set
     \<Rightarrow> string set \<Rightarrow> error + string" where
  "to_sql f schema_mapping v op available_metadata_fields string_fields id_fields entity_fields =
     (case parts f of
        [] \<Rightarrow> Inl IndexError
      | p0 # rest \<Rightarrow>
         (let base_field = base_field_of p0;
              sql_column = map_of schema_mapping base_field
          in (case validate_operation_compatibility base_field op v
                     available_metadata_fields string_fields id_fields of
                Inl e \<Rightarrow> Inl e
              | Inr u \<Rightarrow>
                 (if sql_column = None \<or> sql_column = Some [] then
                    (if base_field \<in> entity_fields then
                       Inr (resolved_column base_field (parts f) (''d.'' @ base_field @ ''_id'') v op)
                     else if base_field \<in> available_metadata_fields then
                       (let metadata_column =
                              (case map_of schema_mapping ''metadata'' of
                                 None \<Rightarrow> ''d.metadata'' | Some c \<Rightarrow> c);
                            json_field = json_field_of metadata_column (parts f)
                        in if numeric_cast v op then Inr (''('' @ json_field @ '')::numeric'')
                           else Inr json_field)
                     else Inl (invalid_field_error schema_mapping available_metadata_fields
                                 (parts f)))
                  else
                    (let col = (case sql_column of None \<Rightarrow> [] | Some c \<Rightarrow> c)
                     in Inr (resolved_column base_field (parts f) col v op))))))"

subsection \<open>The AST and the translator state\<close>

datatype ast_node =
    Comparison field string pyval
  | GlobalSearch string bool
  | And ast_node ast_node
  | Or ast_node ast_node
  | Not ast_node

text \<open>
  A bound parameter is a value of the query or the \<open>datetime\<close> that \<open>parse_date_string\<close>
  made of one.  \<open>datetime.strptime\<close> belongs to Python's library, not to this program: the
  functions below take it as the argument \<open>strptime\<close>, which gives \<open>None\<close> where the library
  raises \<open>ValueError\<close>.
\<close>

datatype datetime =
  DateTime (year: nat) (month: nat) (day: nat) (hour: nat) (minute: nat) (second: nat)

datatype param = Val pyval | Date datetime

definition date_formats :: "string list" where
  "date_formats =
     [''%Y-%m-%d'', ''%Y-%m-%d %H:%M:%S'', ''%Y-%m-%dT%H:%M:%S'', ''%Y-%m-%d %H:%M'',
      ''%Y-%m-%dT%H:%M'']"

definition strip_quotes :: "string \<Rightarrow> string" where
  \<comment> \<open>\<open>date_str.strip("\"'")\<close>\<close>
  "strip_quotes s =
     (let q = (\<lambda>c. c = CHR 0x22 \<or> c = CHR 0x27)
      in rev (dropWhile q (rev (dropWhile q s))))"

fun try_formats :: "(string \<Rightarrow> string \<Rightarrow> datetime option) \<Rightarrow> string \<Rightarrow> string list \<Rightarrow> datetime option" where
  "try_formats strptime s [] = None"
| "try_formats strptime s (fmt # fmts) =
     (case strptime s fmt of Some d \<Rightarrow> Some d | None \<Rightarrow> try_formats strptime s fmts)"

definition parse_date_string :: "(string \<Rightarrow> string \<Rightarrow> datetime option) \<Rightarrow> string \<Rightarrow> datetime option" where
  \<comment> \<open>\<open>None\<close> is the \<open>ValueError\<close> of line 94\<close>
  "parse_date_string strptime date_str = try_formats strptime (strip_quotes date_str) date_formats"

record translator =
  schema_mapping :: schema
  global_search_fields :: "string list"
  available_metadata_fields :: "string set"
  string_fields :: "string set"
  id_fields :: "string set"
  entity_fields :: "string set"
  params :: "param list"
  param_index :: int

definition new_translator :: translator where
  \<comment> \<open>\<open>SqlTranslator.__init__\<close>\<close>
  "new_translator =
     \<lparr>schema_mapping = [], global_search_fields = [], available_metadata_fields = {},
      string_fields = {}, id_fields = {}, entity_fields = {}, params = [], param_index = 0\<rparr>"

definition reset ::
  "translator \<Rightarrow> schema \<Rightarrow> string list option \<Rightarrow> string set option \<Rightarrow> string set option
     \<Rightarrow> string set option \<Rightarrow> string set option \<Rightarrow> translator" where
  "reset t sm gsf md sf idf ef =
     \<lparr>schema_mapping = sm,
      global_search_fields = (case gsf of None \<Rightarrow> global_search_fields t | Some x \<Rightarrow> x),
      available_metadata_fields = (case md of None \<Rightarrow> available_metadata_fields t | Some x \<Rightarrow> x),
      string_fields = (case sf of None \<Rightarrow> string_fields t | Some x \<Rightarrow> x),
      id_fields = (case idf of None \<Rightarrow> id_fields t | Some x \<Rightarrow> x),
      entity_fields = (case ef of None \<Rightarrow> entity_fields t | Some x \<Rightarrow> x),
      params = [],
      param_index = 0\<rparr>"

definition add_param :: "param \<Rightarrow> translator \<Rightarrow> translator" where
  \<comment> \<open>\<open>self.param_index += 1\<close> and \<open>self.params.append(p)\<close>\<close>
  "add_param p t = t\<lparr>param_index := param_index t + 1, params := params t @ [p]\<rparr>"

definition next_placeholder :: "translator \<Rightarrow> string" where
  \<comment> \<open>\<open>f"${self.param_index}"\<close>, read after the increment\<close>
  "next_placeholder t = CHR ''$'' # show_int (param_index t + 1)"

subsection \<open>\<open>SqlTranslator\<close>: existence tests\<close>

definition translate_field_exists :: "field \<Rightarrow> string \<Rightarrow> translator \<Rightarrow> error + string \<times> translator" where
  "translate_field_exists f sql_field t =
     (case parts f of
        [] \<Rightarrow> Inl IndexError
      | p0 # rest \<Rightarrow>
         (if (p0 = ''metadata'' \<and> length (parts f) > 1) \<or> p0 \<in> available_metadata_fields t then
            (let json_path = (if p0 \<in> available_metadata_fields t then parts f else rest)
             in if length json_path = 1 then
                  Inr (''d.metadata ? '' @ next_placeholder t,
                       add_param (Val (StrV (hd json_path))) t)
                else
                  Inr (''jsonb_path_exists(d.metadata, '' @ next_placeholder t @ '')'',
                       add_param (Val (StrV (''$.'' @ join ''.'' json_path))) t))
          else Inr (sql_field @ '' IS NOT NULL'', t)))"

definition translate_field_not_exists :: "field \<Rightarrow> string \<Rightarrow> translator \<Rightarrow> error + string \<times> translator" where
  "translate_field_not_exists f sql_field t =
     (case parts f of
        [] \<Rightarrow> Inl IndexError
      | p0 # rest \<Rightarrow>
         (if (p0 = ''metadata'' \<and> length (parts f) > 1) \<or> p0 \<in> available_metadata_fields t then
            (let json_path = (if p0 \<in> available_metadata_fields t then parts f else rest)
             in if length json_path = 1 then
                  Inr (''NOT (d.metadata ? '' @ next_placeholder t @ '')'',
                       add_param (Val (StrV (hd json_path))) t)
                else
                  Inr (''NOT jsonb_path_exists(d.metadata, '' @ next_placeholder t @ '')'',
                       add_param (Val (StrV (''$.'' @ join ''.'' json_path))) t))
          else Inr (sql_field @ '' IS NULL'', t)))"

subsection \<open>\<open>SqlTranslator._translate_comparison\<close>\<close>

definition guarded_ops :: "string list" where
  \<comment> \<open>line 515: \<open>op in (">", "<", ">=", "<=", "!=")\<close>\<close>
  "guarded_ops = [''>'', ''<'', ''>='', ''<='', ''!='']"

definition sql_op_and_param :: "string \<Rightarrow> pyval \<Rightarrow> bool \<Rightarrow> string \<times> pyval" where
  \<comment> \<open>lines 455--497, the branch \<open>IS NOT NULL\<close> of line 463 apart\<close>
  "sql_op_and_param op v is_last_edited_at =
     (if op = '':'' then (''ILIKE'', StrV (''%'' @ py_str v @ ''%''))
      else if op = ''='' then
        (if is_str v \<and> \<not> is_last_edited_at then (''ILIKE'', v) else (''='', v))
      else if op = ''=~'' then (''~*'', v)
      else if op = ''!~'' then (''!~*'', v)
      else if op = ''!:'' then (''NOT_ILIKE'', StrV (''%'' @ py_str v @ ''%''))
      else if op = ''#'' then (''SIMILARITY'', v)
      else if op = ''!='' then
        (if is_str v \<and> \<not> is_last_edited_at then (''NOT_ILIKE'', v) else (''!='', v))
      else (op, v))"

definition date_param ::
  "(string \<Rightarrow> string \<Rightarrow> datetime option) \<Rightarrow> bool \<Rightarrow> string \<Rightarrow> pyval \<Rightarrow> param" where
  \<comment> \<open>lines 499--510\<close>
  "date_param strptime is_last_edited_at op pv =
     (case pv of
        StrV s \<Rightarrow>
          (if is_last_edited_at \<and> op \<in> set comparison_ops then
             (case parse_date_string strptime s of Some d \<Rightarrow> Date d | None \<Rightarrow> Val pv)
           else Val pv)
      | _ \<Rightarrow> Val pv)"

definition comparison_sql :: "bool \<Rightarrow> string \<Rightarrow> string \<Rightarrow> string \<Rightarrow> string \<Rightarrow> string" where
  \<comment> \<open>lines 514--530\<close>
  "comparison_sql is_last_edited_at op sql_op sql_field placeholder =
     (if is_last_edited_at \<and> op \<in> set guarded_ops then
        (if sql_op = ''NOT_ILIKE'' then
           ''('' @ sql_field @ '' IS NOT NULL AND NOT ('' @ sql_field @ '' ILIKE '' @ placeholder @ ''))''
         else if sql_op = ''SIMILARITY'' then
           ''('' @ sql_field @ '' IS NOT NULL AND similarity('' @ placeholder @ '', '' @ sql_field
             @ '') > 0.7)''
         else
           ''('' @ sql_field @ '' IS NOT NULL AND '' @ sql_field @ '' '' @ sql_op @ '' '' @ placeholder
             @ '')'')
      else
        (if sql_op = ''NOT_ILIKE'' then
           ''NOT ('' @ sql_field @ '' ILIKE '' @ placeholder @ '')''
         else if sql_op = ''SIMILARITY'' then
           ''similarity('' @ placeholder @ '', '' @ sql_field @ '') > 0.7''
         else sql_field @ '' '' @ sql_op @ '' '' @ placeholder))"

definition translate_comparison ::
  "(string \<Rightarrow> string \<Rightarrow> datetime option) \<Rightarrow> field \<Rightarrow> string \<Rightarrow> pyval \<Rightarrow> translator
     \<Rightarrow> error + string \<times> translator" where
  "translate_comparison strptime f op v t =
     (case to_sql f (schema_mapping t) v (Some op) (available_metadata_fields t)
             (string_fields t) (id_fields t) (entity_fields t) of
        Inl e \<Rightarrow> Inl e
      | Inr sql_field \<Rightarrow>
         (if op = '':'' \<and> v = StrV ''*'' then translate_field_exists f sql_field t
          else if op = ''!:'' \<and> v = StrV ''*'' then translate_field_not_exists f sql_field t
          else
            (case parts f of
               [] \<Rightarrow> Inl IndexError
             | p0 # rest \<Rightarrow>
                (let is_last_edited_at =
                       (p0 = ''last_edited_at'' \<or> endswith sql_field ''last_edited_at'')
                 in if op = '':'' \<and> is_last_edited_at \<and> (v = StrV [] \<or> v = NoneV) then
                      Inr (sql_field @ '' IS NOT NULL'', t)
                    else
                      (let (sql_op, pv) = sql_op_and_param op v is_last_edited_at
                       in Inr (comparison_sql is_last_edited_at op sql_op sql_field
                                 (next_placeholder t),
                               add_param (date_param strptime is_last_edited_at op pv) t))))))"

subsection \<open>\<open>SqlTranslator._translate_global_search\<close>\<close>

definition lower_char :: "char \<Rightarrow> char" where
  "lower_char c =
     (if (CHR ''A'' \<le> c \<and> c \<le> CHR ''Z'') \<or> (CHR 0xC0 \<le> c \<and> c \<le> CHR 0xDE \<and> c \<noteq> CHR 0xD7)
      then char_of (of_char c + (32 :: nat)) else c)"

definition lower :: "string \<Rightarrow> string" where
  \<comment> \<open>\<open>s.lower()\<close>\<close>
  "lower s = map lower_char s"

definition upper_char :: "char \<Rightarrow> char" where
  "upper_char c =
     (if CHR ''a'' \<le> c \<and> c \<le> CHR ''z'' then char_of (of_char c - (32 :: nat)) else c)"

definition upper :: "string \<Rightarrow> string" where
  \<comment> \<open>\<open>s.upper()\<close> on a string of ASCII characters, the only ones it is applied to: the
      source upper-cases a sort order that it has checked to be \<open>asc\<close> or \<open>desc\<close> up to case\<close>
  "upper s = map upper_char s"

fun contains :: "string \<Rightarrow> string \<Rightarrow> bool" where
  \<comment> \<open>\<open>sub in s\<close>\<close>
  "contains [] sub = (sub = [])"
| "contains (c # cs) sub = (startswith (c # cs) sub \<or> contains cs sub)"

definition build_search_condition :: "string \<Rightarrow> string \<Rightarrow> bool \<Rightarrow> string" where
  "build_search_condition fname placeholder is_quoted =
     (if contains (lower fname) ''uuid'' then
        (if is_quoted then fname @ ''::text ~* '' @ placeholder
         else fname @ ''::text ILIKE '' @ [CHR 0x27] @ ''%'' @ [CHR 0x27] @ '' || '' @ placeholder
                @ '' || '' @ [CHR 0x27] @ ''%'' @ [CHR 0x27])
      else
        (if is_quoted then fname @ '' ~* '' @ placeholder
         else fname @ '' ILIKE '' @ [CHR 0x27] @ ''%'' @ [CHR 0x27] @ '' || '' @ placeholder
                @ '' || '' @ [CHR 0x27] @ ''%'' @ [CHR 0x27]))"

definition build_global_search_clause :: "string \<Rightarrow> bool \<Rightarrow> string list \<Rightarrow> int \<Rightarrow> string \<times> string" where
  "build_global_search_clause search_term is_quoted field_list param_offset =
     (if strip search_term = [] then (''TRUE'', [])
      else
        (let placeholder = CHR ''$'' # show_int (param_offset + 1);
             conditions = map (\<lambda>fname. build_search_condition fname placeholder is_quoted) field_list
         in if conditions = [] then (''TRUE'', [])
            else (''('' @ join '' OR '' conditions @ '')'', placeholder)))"

definition translate_global_search :: "string \<Rightarrow> bool \<Rightarrow> translator \<Rightarrow> string \<times> translator" where
  "translate_global_search v is_quoted t =
     (if strip v = ''*'' \<or> strip v = [] then (''TRUE'', t)
      else
        (let search_value = strip v;
             (where_clause, placeholder) =
               build_global_search_clause search_value is_quoted (global_search_fields t)
                 (param_index t)
         in (where_clause,
             if placeholder \<noteq> [] then add_param (Val (StrV search_value)) t else t)))"

subsection \<open>\<open>SqlTranslator.translate\<close>\<close>

fun translate ::
  "(string \<Rightarrow> string \<Rightarrow> datetime option) \<Rightarrow> ast_node \<Rightarrow> translator \<Rightarrow> error + string \<times> translator" where
  "translate strptime (Comparison f op v) t = translate_comparison strptime f op v t"
| "translate strptime (GlobalSearch v is_quoted) t = Inr (translate_global_search v is_quoted t)"
| "translate strptime (Not n) t =
     (case translate strptime n t of
        Inl e \<Rightarrow> Inl e
      | Inr (s, t') \<Rightarrow> Inr (''NOT ('' @ s @ '')'', t'))"
| "translate strptime (And l r) t =
     (case translate strptime l t of
        Inl e \<Rightarrow> Inl e
      | Inr (sl, t') \<Rightarrow>
         (case translate strptime r t' of
            Inl e \<Rightarrow> Inl e
          | Inr (sr, t'') \<Rightarrow> Inr (''('' @ sl @ '' AND '' @ sr @ '')'', t'')))"
| "translate strptime (Or l r) t =
     (case translate strptime l t of
        Inl e \<Rightarrow> Inl e
      | Inr (sl, t') \<Rightarrow>
         (case translate strptime r t' of
            Inl e \<Rightarrow> Inl e
          | Inr (sr, t'') \<Rightarrow> Inr (''('' @ sl @ '' OR '' @ sr @ '')'', t'')))"

subsection \<open>The regular expressions of the recovery layer\<close>

text \<open>
  The five patterns that the recovery layer hands to \<open>re\<close>, each written as the scanner
  the pattern denotes: the leftmost match at each position, the greedy runs maximal (none
  of the patterns can match with a shorter run).  The functions that replace or split walk
  the string once; on a match of \<open>n\<close> characters they skip the \<open>n - 1\<close> that follow.
\<close>

definition is_quote :: "char \<Rightarrow> bool" where
  \<comment> \<open>the class \<open>["\']\<close>\<close>
  "is_quote c = (c = CHR 0x22 \<or> c = CHR 0x27)"

definition is_word :: "char \<Rightarrow> bool" where
  \<comment> \<open>the class \<open>\w\<close> on \<open>str\<close>, for code points below 256\<close>
  "is_word c =
     ((CHR ''a'' \<le> c \<and> c \<le> CHR ''z'') \<or> (CHR ''A'' \<le> c \<and> c \<le> CHR ''Z'') \<or> is_digit c
      \<or> c = CHR ''_''
      \<or> c \<in> set [CHR 0xAA, CHR 0xB2, CHR 0xB3, CHR 0xB5, CHR 0xB9, CHR 0xBA, CHR 0xBC, CHR 0xBD,
                    CHR 0xBE]
      \<or> (CHR 0xC0 \<le> c \<and> c \<le> CHR 0xD6) \<or> (CHR 0xD8 \<le> c \<and> c \<le> CHR 0xF6) \<or> CHR 0xF8 \<le> c)"

definition ci_prefix :: "string \<Rightarrow> string \<Rightarrow> bool" where
  \<comment> \<open>the ASCII keyword \<open>kw\<close> is a prefix of \<open>s\<close>, up to case\<close>
  "ci_prefix kw s = (length kw \<le> length s \<and> map lower_char (take (length kw) s) = map lower_char kw)"

definition and_separator :: "string \<Rightarrow> nat option" where
  \<comment> \<open>the length of the match of \<open>\s+AND\s+\<close> (ignoring case) at the head of the string\<close>
  "and_separator s =
     (let ws1 = takeWhile is_space s;
          r1 = dropWhile is_space s;
          r2 = drop 3 r1;
          ws2 = takeWhile is_space r2
      in if ws1 \<noteq> [] \<and> ci_prefix ''AND'' r1 \<and> ws2 \<noteq> [] then Some (length ws1 + 3 + length ws2)
         else None)"

fun split_and_from :: "nat \<Rightarrow> string \<Rightarrow> string \<Rightarrow> string list" where
  "split_and_from skip acc [] = [acc]"
| "split_and_from skip acc (c # cs) =
     (if skip > 0 then split_and_from (skip - 1) acc cs
      else (case and_separator (c # cs) of
              Some n \<Rightarrow> acc # split_and_from (n - 1) [] cs
            | None \<Rightarrow> split_and_from 0 (acc @ [c]) cs))"

definition re_split_and :: "string \<Rightarrow> string list" where
  \<comment> \<open>\<open>re.split(r"\s+AND\s+", s, flags=re.IGNORECASE)\<close>\<close>
  "re_split_and s = split_and_from 0 [] s"

definition quoted_match :: "string \<Rightarrow> (string \<times> nat) option" where
  \<comment> \<open>the group and the length of the match of \<open>["\']([^"\']+)["\']\<close> at the head of the string\<close>
  "quoted_match s =
     (case s of
        [] \<Rightarrow> None
      | c # cs \<Rightarrow>
         (let body = takeWhile (\<lambda>x. \<not> is_quote x) cs;
              rest = dropWhile (\<lambda>x. \<not> is_quote x) cs
          in if is_quote c \<and> body \<noteq> [] \<and> rest \<noteq> [] then Some (body, length body + 2) else None))"

fun findall_quoted_from :: "nat \<Rightarrow> string \<Rightarrow> string list" where
  "findall_quoted_from skip [] = []"
| "findall_quoted_from skip (c # cs) =
     (if skip > 0 then findall_quoted_from (skip - 1) cs
      else (case quoted_match (c # cs) of
              Some (body, n) \<Rightarrow> body # findall_quoted_from (n - 1) cs
            | None \<Rightarrow> findall_quoted_from 0 cs))"

definition re_findall_quoted :: "string \<Rightarrow> string list" where
  \<comment> \<open>\<open>re.findall(r'["\']([^"\']+)["\']', s)\<close>\<close>
  "re_findall_quoted s = findall_quoted_from 0 s"

definition keyword_match :: "char option \<Rightarrow> string \<Rightarrow> nat option" where
  \<comment> \<open>the length of the match of \<open>\b(AND|OR|NOT)\b\<close> (ignoring case) at the head of the
      string, \<open>prev\<close> being the character before it\<close>
  "keyword_match prev s =
     (let boundary_before = (case prev of None \<Rightarrow> True | Some p \<Rightarrow> \<not> is_word p);
          ends = (\<lambda>n. case drop n s of [] \<Rightarrow> True | x # xs \<Rightarrow> \<not> is_word x)
      in if \<not> boundary_before then None
         else if ci_prefix ''AND'' s \<and> ends 3 then Some 3
         else if ci_prefix ''OR'' s \<and> ends 2 then Some 2
         else if ci_prefix ''NOT'' s \<and> ends 3 then Some 3
         else None)"

fun sub_keywords_from :: "nat \<Rightarrow> char option \<Rightarrow> string \<Rightarrow> string" where
  "sub_keywords_from skip prev [] = []"
| "sub_keywords_from skip prev (c # cs) =
     (if skip > 0 then sub_keywords_from (skip - 1) (Some c) cs
      else (case keyword_match prev (c # cs) of
              Some n \<Rightarrow> CHR '' '' # sub_keywords_from (n - 1) (Some c) cs
            | None \<Rightarrow> c # sub_keywords_from 0 (Some c) cs))"

definition re_sub_keywords :: "string \<Rightarrow> string" where
  \<comment> \<open>\<open>re.sub(r"\b(AND|OR|NOT)\b", " ", s, flags=re.IGNORECASE)\<close>\<close>
  "re_sub_keywords s = sub_keywords_from 0 None s"

definition field_equals_match :: "string \<Rightarrow> nat option" where
  \<comment> \<open>the length of the match of \<open>\w+\s*=\s*["\'][^"\']*["\']\<close> at the head of the string\<close>
  "field_equals_match s =
     (let w = takeWhile is_word s;
          r1 = dropWhile is_word s;
          ws1 = takeWhile is_space r1;
          r2 = dropWhile is_space r1;
          r3 = drop 1 r2;
          ws2 = takeWhile is_space r3;
          r4 = dropWhile is_space r3;
          r5 = drop 1 r4;
          body = takeWhile (\<lambda>x. \<not> is_quote x) r5;
          r6 = dropWhile (\<lambda>x. \<not> is_quote x) r5
      in if w \<noteq> [] \<and> take 1 r2 = ''='' \<and> r4 \<noteq> [] \<and> is_quote (hd r4) \<and> r6 \<noteq> [] then
           Some (length w + length ws1 + 1 + length ws2 + 1 + length body + 1)
         else None)"

fun sub_field_equals_from :: "nat \<Rightarrow> string \<Rightarrow> string" where
  "sub_field_equals_from skip [] = []"
| "sub_field_equals_from skip (c # cs) =
     (if skip > 0 then sub_field_equals_from (skip - 1) cs
      else (case field_equals_match (c # cs) of
              Some n \<Rightarrow> CHR '' '' # sub_field_equals_from (n - 1) cs
            | None \<Rightarrow> c # sub_field_equals_from 0 cs))"

definition re_sub_field_equals :: "string \<Rightarrow> string" where
  \<comment> \<open>\<open>re.sub(r'\w+\s*=\s*["\'][^"\']*["\']', " ", s)\<close>\<close>
  "re_sub_field_equals s = sub_field_equals_from 0 s"

fun sub_spaces_from :: "bool \<Rightarrow> string \<Rightarrow> string" where
  \<comment> \<open>the flag says that the previous character was a blank, already replaced\<close>
  "sub_spaces_from prev [] = []"
| "sub_spaces_from prev (c # cs) =
     (if is_space c then (if prev then sub_spaces_from True cs else CHR '' '' # sub_spaces_from True cs)
      else c # sub_spaces_from False cs)"

definition re_sub_spaces :: "string \<Rightarrow> string" where
  \<comment> \<open>\<open>re.sub(r"\s+", " ", s)\<close>\<close>
  "re_sub_spaces s = sub_spaces_from False s"

definition clean_search_term :: "string \<Rightarrow> string" where
  \<comment> \<open>lines 1065--1071 and 1127--1131: the three substitutions and \<open>strip\<close>\<close>
  "clean_search_term s = strip (re_sub_spaces (re_sub_field_equals (re_sub_keywords s)))"

definition is_hex :: "char \<Rightarrow> bool" where
  "is_hex c =
     (is_digit c \<or> (CHR ''A'' \<le> c \<and> c \<le> CHR ''F'') \<or> (CHR ''a'' \<le> c \<and> c \<le> CHR ''f''))"

definition is_uuid_format :: "string \<Rightarrow> bool" where
  \<comment> \<open>\<open>UUID_PATTERN.match(value.strip())\<close>: hexadecimal groups of 8, 4, 4, 4 and 12 digits\<close>
  "is_uuid_format v =
     list_all2 (\<lambda>i c. if i \<in> {8, 13, 18, 23} then c = CHR ''-'' else is_hex c)
       [0..<36] (strip v)"

subsection \<open>\<open>QueryParser\<close>: the state that \<open>setup\<close> leaves\<close>

text \<open>
  \<open>setup\<close> reads the schema from the database and is not modelled: a \<open>query_parser\<close> holds
  what it stores.  The fields carry the prefix \<open>qp\<close> where the translator has a field of
  the same name.  The keys of \<open>navigation_analysis\<close> that \<open>setup\<close> fills are optional, as the
  dictionary is empty before; the Lark parser with the \<open>AstTransformer\<close> applied to its
  tree is the argument \<open>lark\<close> of the functions that parse, \<open>None\<close> being a \<open>LarkError\<close>.
\<close>

record nav_table =
  table_name :: string
  nav_primary_key :: string
  name_column :: string

record main_schema =
  columns :: "string list"
  primary_key :: "string option"

record navigation =
  navigation_tables :: "(string \<times> nav_table) list option"
  main_table_schema :: "main_schema option"

record query_parser =
  qp_schema_mapping :: schema
  qp_available_metadata_fields :: "string set"
  qp_string_fields :: "string set"
  qp_id_fields :: "string set"
  qp_entity_fields :: "string set"
  from_and_joins :: string
  navigation_analysis :: navigation
  entity_aliases :: "(string \<times> string) list"
  main_table :: string
  qp_translator :: translator

fun nav_fields ::
  "(string \<times> string) list \<Rightarrow> (string \<Rightarrow> string \<Rightarrow> nav_table \<Rightarrow> string) \<Rightarrow> (string \<times> nav_table) list
     \<Rightarrow> error + string list" where
  \<comment> \<open>the loops over \<open>navigation_tables\<close> of lines 977--986 and 1016--1021: one string for
      each entity, made of its alias, its key and its table; a missing alias is a \<open>KeyError\<close>\<close>
  "nav_fields aliases mk [] = Inr []"
| "nav_fields aliases mk ((entity_key, table_info) # tables) =
     (case map_of aliases entity_key of
        None \<Rightarrow> Inl (KeyError entity_key)
      | Some alias \<Rightarrow>
         (case nav_fields aliases mk tables of
            Inl e \<Rightarrow> Inl e
          | Inr fs \<Rightarrow> Inr (mk alias entity_key table_info # fs)))"

definition build_dynamic_select_fields :: "query_parser \<Rightarrow> error + string" where
  "build_dynamic_select_fields qp =
     (let main_table_columns =
            (case main_table_schema (navigation_analysis qp) of None \<Rightarrow> [] | Some ms \<Rightarrow> columns ms)
      in case navigation_tables (navigation_analysis qp) of
           None \<Rightarrow> Inl (KeyError ''navigation_tables'')
         | Some tables \<Rightarrow>
            (case nav_fields (entity_aliases qp)
                    (\<lambda>alias entity_key table_info.
                       replicate 20 CHR '' '' @ alias @ ''.'' @ name_column table_info @ '' as ''
                         @ entity_key @ ''_name'')
                    tables of
               Inl e \<Rightarrow> Inl e
             | Inr fs \<Rightarrow>
                 Inr (join ('','' @ [CHR 0x0A]) (map (\<lambda>c. ''d.'' @ c) main_table_columns @ fs))))"

definition build_dynamic_global_search_fields :: "query_parser \<Rightarrow> string \<Rightarrow> error + string list" where
  "build_dynamic_global_search_fields qp search_term =
     (case navigation_tables (navigation_analysis qp) of
        None \<Rightarrow> Inl (KeyError ''navigation_tables'')
      | Some tables \<Rightarrow>
         (case nav_fields (entity_aliases qp)
                 (\<lambda>alias entity_key table_info. alias @ ''.'' @ name_column table_info) tables of
            Inl e \<Rightarrow> Inl e
          | Inr fs \<Rightarrow>
              Inr ([''d.name'', ''jsonb_values_to_text(d.metadata)'']
                   @ (if search_term \<noteq> [] \<and> is_uuid_format search_term then [''d.uuid''] else [])
                   @ fs)))"

fun extract_search_term_from_ast :: "ast_node \<Rightarrow> string" where
  "extract_search_term_from_ast (GlobalSearch v is_quoted) = strip v"
| "extract_search_term_from_ast (And l r) =
     (let left_term = extract_search_term_from_ast l
      in if left_term \<noteq> [] then left_term else extract_search_term_from_ast r)"
| "extract_search_term_from_ast (Or l r) =
     (let left_term = extract_search_term_from_ast l
      in if left_term \<noteq> [] then left_term else extract_search_term_from_ast r)"
| "extract_search_term_from_ast (Not n) = extract_search_term_from_ast n"
| "extract_search_term_from_ast (Comparison f op v) = []"

subsection \<open>\<open>QueryParser._build_order_by_clause\<close>\<close>

fun split_from :: "char \<Rightarrow> string \<Rightarrow> string \<Rightarrow> string list" where
  "split_from sep acc [] = [acc]"
| "split_from sep acc (c # cs) =
     (if c = sep then acc # split_from sep [] cs else split_from sep (acc @ [c]) cs)"

definition split :: "char \<Rightarrow> string \<Rightarrow> string list" where
  \<comment> \<open>\<open>s.split(sep)\<close> for a separator of one character\<close>
  "split sep s = split_from sep [] s"

definition hex_digit :: "nat \<Rightarrow> char" where
  "hex_digit d = (if d < 10 then char_of (48 + d) else char_of (87 + d))"

definition repr_char :: "char \<Rightarrow> char \<Rightarrow> string" where
  \<comment> \<open>one character inside \<open>repr\<close> of a \<open>str\<close>, between the quotes \<open>q\<close>\<close>
  "repr_char q c =
     (if c = q \<or> c = CHR 0x5C then [CHR 0x5C, c]
      else if c = CHR 0x0A then [CHR 0x5C, CHR ''n'']
      else if c = CHR 0x0D then [CHR 0x5C, CHR ''r'']
      else if c = CHR 0x09 then [CHR 0x5C, CHR ''t'']
      else if c < CHR 0x20 \<or> (CHR 0x7F \<le> c \<and> c \<le> CHR 0xA0) \<or> c = CHR 0xAD then
        [CHR 0x5C, CHR ''x'', hex_digit (of_char c div 16), hex_digit (of_char c mod 16)]
      else [c])"

definition py_repr :: "string \<Rightarrow> string" where
  \<comment> \<open>\<open>repr(s)\<close>, the conversion \<open>!r\<close> of an f-string, for code points below 256: double
      quotes when the string has a single quote and no double quote, single quotes otherwise\<close>
  "py_repr s =
     (let q = (if CHR 0x27 \<in> set s \<and> CHR 0x22 \<notin> set s then CHR 0x22 else CHR 0x27)
      in [q] @ concat (map (repr_char q) s) @ [q])"

definition primary_key_field :: "query_parser \<Rightarrow> error + string" where
  \<comment> \<open>\<open>f"d.{self.navigation_analysis['main_table_schema']['primary_key']}"\<close>\<close>
  "primary_key_field qp =
     (case main_table_schema (navigation_analysis qp) of
        None \<Rightarrow> Inl (KeyError ''main_table_schema'')
      | Some ms \<Rightarrow>
         (case primary_key ms of
            None \<Rightarrow> Inl (KeyError ''primary_key'')
          | Some pk \<Rightarrow> Inr (''d.'' @ pk)))"

definition build_order_by_clause :: "query_parser \<Rightarrow> string \<Rightarrow> string \<Rightarrow> error + string" where
  "build_order_by_clause qp sort_by sort_order =
     (if lower sort_order \<noteq> ''asc'' \<and> lower sort_order \<noteq> ''desc'' then
        Inl (ValueError (''sort_order must be '' @ [CHR 0x27] @ ''asc'' @ [CHR 0x27] @ '' or ''
               @ [CHR 0x27] @ ''desc'' @ [CHR 0x27]))
      else if startswith sort_by ''metadata.'' then
        (let path_parts = split CHR ''.'' (drop 9 sort_by);
             json_field =
               (if length path_parts = 1 then ''d.metadata->>'' @ py_repr (hd path_parts)
                else ''d.metadata->'' @ join ''->'' (map quote (butlast path_parts)) @ ''->>''
                       @ py_repr (last path_parts))
         in case primary_key_field qp of
              Inl e \<Rightarrow> Inl e
            | Inr pk \<Rightarrow>
                Inr (''ORDER BY '' @ json_field @ '' '' @ upper sort_order @ '', '' @ pk @ '' ''
                       @ upper sort_order))
      else
        (case to_sql (Field [sort_by]) (qp_schema_mapping qp) NoneV None
                (qp_available_metadata_fields qp) (qp_string_fields qp) (qp_id_fields qp)
                (qp_entity_fields qp) of
           Inl e \<Rightarrow> Inl e
         | Inr sql_field \<Rightarrow>
            (case primary_key_field qp of
               Inl e \<Rightarrow> Inl e
             | Inr pk \<Rightarrow>
                 Inr (''ORDER BY '' @ sql_field @ '' '' @ upper sort_order @ '', '' @ pk @ '' ''
                        @ upper sort_order))))"

subsection \<open>The recovery layer\<close>

definition build_fuzzy_search_clause :: "query_parser \<Rightarrow> string \<Rightarrow> error + string \<times> param list" where
  "build_fuzzy_search_clause qp query_string =
     (let quoted_strings = re_findall_quoted query_string;
          cleaned = clean_search_term query_string;
          search_term =
            (if quoted_strings \<noteq> [] then strip (hd quoted_strings)
             else if cleaned \<noteq> [] then cleaned else strip query_string);
          is_quoted = (quoted_strings \<noteq> [])
      in case build_dynamic_global_search_fields qp search_term of
           Inl e \<Rightarrow> Inl e
         | Inr field_list \<Rightarrow>
             Inr (fst (build_global_search_clause search_term is_quoted field_list 0),
                  if strip search_term \<noteq> [] then [Val (StrV search_term)] else []))"

definition stripped_parts :: "string \<Rightarrow> string list" where
  \<comment> \<open>the segments that the two loops of \<open>_build_hybrid_search_clause\<close> visit: the pieces
      between the \<open>AND\<close>s, stripped, the empty ones skipped\<close>
  "stripped_parts query_string = filter (\<lambda>p. p \<noteq> []) (map strip (re_split_and query_string))"

fun translate_parts ::
  "(string \<Rightarrow> ast_node option) \<Rightarrow> (string \<Rightarrow> string \<Rightarrow> datetime option) \<Rightarrow> string list \<Rightarrow> translator
     \<Rightarrow> error + string list \<times> string list \<times> translator" where
  \<comment> \<open>the loop of lines 1145--1161: the clauses of the segments that parse, the segments
      that do not, and the translator; an error of \<open>translate\<close> is not caught here\<close>
  "translate_parts lark strptime [] t = Inr ([], [], t)"
| "translate_parts lark strptime (part # ps) t =
     (case lark part of
        None \<Rightarrow>
          (case translate_parts lark strptime ps t of
             Inl e \<Rightarrow> Inl e
           | Inr (valid_clauses, fuzzy_search_terms, t') \<Rightarrow>
               Inr (valid_clauses, part # fuzzy_search_terms, t'))
      | Some ast \<Rightarrow>
          (case translate strptime ast t of
             Inl e \<Rightarrow> Inl e
           | Inr (clause, t1) \<Rightarrow>
              (case translate_parts lark strptime ps t1 of
                 Inl e \<Rightarrow> Inl e
               | Inr (valid_clauses, fuzzy_search_terms, t') \<Rightarrow>
                   Inr (clause # valid_clauses, fuzzy_search_terms, t'))))"

definition build_hybrid_search_clause ::
  "(string \<Rightarrow> ast_node option) \<Rightarrow> (string \<Rightarrow> string \<Rightarrow> datetime option) \<Rightarrow> query_parser \<Rightarrow> string
     \<Rightarrow> error + string \<times> param list" where
  "build_hybrid_search_clause lark strptime qp query_string =
     (let ps = stripped_parts query_string;
          all_search_terms = filter (\<lambda>p. lark p = None) ps;
          primary_search_term =
            (if all_search_terms = [] then []
             else
               (let quoted_strings = re_findall_quoted (join '' '' all_search_terms)
                in if quoted_strings \<noteq> [] then strip (hd quoted_strings)
                   else clean_search_term (hd all_search_terms)))
      in case build_dynamic_global_search_fields qp primary_search_term of
           Inl e \<Rightarrow> Inl e
         | Inr gsf \<Rightarrow>
            (let t = reset (qp_translator qp) (qp_schema_mapping qp) (Some gsf)
                       (Some (qp_available_metadata_fields qp)) (Some (qp_string_fields qp))
                       (Some (qp_id_fields qp)) (Some (qp_entity_fields qp))
             in case translate_parts lark strptime ps t of
                  Inl e \<Rightarrow> Inl e
                | Inr (valid_clauses, fuzzy_search_terms, t') \<Rightarrow>
                   (let all_params = params t';
                        param_index = int (length all_params);
                        fuzzy_phrase = strip (join '' '' fuzzy_search_terms);
                        is_quoted = (re_findall_quoted query_string \<noteq> []);
                        fuzzy_clause =
                          fst (build_global_search_clause fuzzy_phrase is_quoted gsf param_index);
                        all_params' =
                          (if fuzzy_search_terms \<noteq> [] then all_params @ [Val (StrV fuzzy_phrase)]
                           else all_params);
                        valid_clauses' =
                          (if fuzzy_search_terms \<noteq> [] \<and> fuzzy_clause \<noteq> ''TRUE''
                           then valid_clauses @ [fuzzy_clause] else valid_clauses)
                    in Inr (if valid_clauses' \<noteq> [] then ''('' @ join '' AND '' valid_clauses' @ '')''
                            else ''TRUE'',
                            all_params'))))"

subsection \<open>\<open>QueryParser.parse_query\<close>\<close>

definition query_text :: "nat \<Rightarrow> string list \<Rightarrow> string" where
  \<comment> \<open>a triple-quoted f-string: a line break, the lines indented by \<open>n + 4\<close> blanks, and the
      indentation \<open>n\<close> of the closing quotes\<close>
  "query_text n ls =
     [CHR 0x0A] @ concat (map (\<lambda>l. replicate (n + 4) CHR '' '' @ l @ [CHR 0x0A]) ls)
       @ replicate n CHR '' ''"

definition assemble ::
  "query_parser \<Rightarrow> nat \<Rightarrow> string \<Rightarrow> string \<Rightarrow> string \<Rightarrow> param list
     \<Rightarrow> error + string \<times> string \<times> param list" where
  \<comment> \<open>lines 1248--1256 and 1258--1267: the two queries around a \<open>WHERE\<close> clause\<close>
  "assemble qp n where_clause sort_by sort_order ps =
     (case build_dynamic_select_fields qp of
        Inl e \<Rightarrow> Inl e
      | Inr select_fields \<Rightarrow>
         (case build_order_by_clause qp sort_by sort_order of
            Inl e \<Rightarrow> Inl e
          | Inr order_by \<Rightarrow>
              Inr (''SELECT COUNT(*) '' @ from_and_joins qp @ '' WHERE '' @ where_clause,
                   query_text n [''SELECT '' @ select_fields, from_and_joins qp,
                                 ''WHERE '' @ where_clause, order_by],
                   ps)))"

definition parse_query ::
  "(string \<Rightarrow> ast_node option) \<Rightarrow> (string \<Rightarrow> string \<Rightarrow> datetime option) \<Rightarrow> query_parser
     \<Rightarrow> string \<Rightarrow> string \<Rightarrow> string \<Rightarrow> error + string \<times> string \<times> param list" where
  "parse_query lark strptime qp query_string sort_by sort_order =
     (if qp_schema_mapping qp = [] then Inl (RuntimeError ''QueryParser not set up.'')
      else if strip query_string = [] then
        (case build_dynamic_select_fields qp of
           Inl e \<Rightarrow> Inl e
         | Inr select_fields \<Rightarrow>
            (case build_order_by_clause qp sort_by sort_order of
               Inl e \<Rightarrow> Inl e
             | Inr order_by \<Rightarrow>
                 Inr (''SELECT COUNT(*) FROM '' @ main_table qp,
                      query_text 12 [''SELECT '' @ select_fields, from_and_joins qp, order_by],
                      [])))
      else
        (case lark query_string of
           Some ast \<Rightarrow>
            (case build_dynamic_global_search_fields qp (extract_search_term_from_ast ast) of
               Inl e \<Rightarrow> Inl e
             | Inr gsf \<Rightarrow>
                (case translate strptime ast
                        (reset (qp_translator qp) (qp_schema_mapping qp) (Some gsf)
                           (Some (qp_available_metadata_fields qp)) (Some (qp_string_fields qp))
                           (Some (qp_id_fields qp)) (Some (qp_entity_fields qp))) of
                   Inl e \<Rightarrow> Inl e
                 | Inr (where_clause, t') \<Rightarrow>
                     assemble qp 8 where_clause sort_by sort_order (params t')))
         | None \<Rightarrow>
            (case (case build_hybrid_search_clause lark strptime qp query_string of
                     Inl hybrid_error \<Rightarrow> build_fuzzy_search_clause qp query_string
                   | Inr r \<Rightarrow> Inr r) of
               Inl e \<Rightarrow> Inl e
             | Inr (where_clause, ps) \<Rightarrow> assemble qp 12 where_clause sort_by sort_order ps)))"

subsection \<open>Reading the placeholders of a SQL string\<close>

text \<open>
  The placeholders of a string are the numbers of its occurrences of \<open>$\<close> followed by
  digits, each read to its last digit, from left to right.
\<close>

definition dollar_free :: "string \<Rightarrow> bool" where
  "dollar_free s = (CHR ''$'' \<notin> set s)"


definition digit_val :: "char \<Rightarrow> nat" where
  "digit_val c = of_char c - 48"














subsection \<open>Resolvable fields, and an example schema\<close>

definition resolves :: "schema \<Rightarrow> string set \<Rightarrow> string set \<Rightarrow> string \<Rightarrow> bool" where
  \<comment> \<open>one of the three lookups of \<open>to_sql\<close> finds the base field: the schema mapping (with a
      non-empty SQL expression), the entity fields or the metadata fields\<close>
  "resolves sm md ef b =
     ((map_of sm b \<noteq> None \<and> map_of sm b \<noteq> Some []) \<or> b \<in> ef \<or> b \<in> md)"

definition example_schema :: schema where
  "example_schema =
     [(''name'', ''d.name''), (''size'', ''d.size''), (''metadata'', ''d.metadata''),
      (''last_edited_at'', ''d.last_edited_at'')]"

definition example_translator :: translator where
  "example_translator =
     reset new_translator example_schema (Some [''d.name'', ''jsonb_values_to_text(d.metadata)''])
       (Some {''tag'', ''file_name''}) (Some {''name''}) (Some {}) (Some {})"

definition no_strptime :: "string \<Rightarrow> string \<Rightarrow> datetime option" where
  \<comment> \<open>a \<open>strptime\<close> for the examples that never reach \<open>parse_date_string\<close>\<close>
  "no_strptime s fmt = None"

subsection \<open>An example parser\<close>

text \<open>
  \<open>new_query_parser\<close> is the parser as \<open>QueryParser.__init__\<close> leaves it, before \<open>setup\<close>;
  \<open>example_parser\<close> is one after \<open>setup\<close>, on a main table \<open>entities\<close> with one navigation
  table.  \<open>example_lark\<close> gives what the grammar and the \<open>AstTransformer\<close> give on the two
  strings of the examples that the grammar accepts, and a \<open>LarkError\<close> otherwise: the
  examples parse no other string but \<open>broken_query\<close> and its second segment, which both
  end inside a quoted string.
\<close>

definition new_query_parser :: query_parser where
  "new_query_parser =
     \<lparr>qp_schema_mapping = [], qp_available_metadata_fields = {}, qp_string_fields = {},
      qp_id_fields = {}, qp_entity_fields = {}, from_and_joins = [],
      navigation_analysis = \<lparr>navigation_tables = None, main_table_schema = None\<rparr>,
      entity_aliases = [], main_table = [], qp_translator = new_translator\<rparr>"


definition example_query :: string where
  "example_query = ''name=active AND size>100''"

definition example_ast :: ast_node where
  "example_ast =
     And (Comparison (Field [''name'']) ''='' (StrV ''active''))
         (Comparison (Field [''size'']) ''>'' (IntV 100))"


definition example_lark :: "string \<Rightarrow> ast_node option" where
  "example_lark s =
     (if s = ''nonexistent_field=1'' then
        Some (Comparison (Field [''nonexistent_field'']) ''='' (IntV 1))
      else if s = example_query then Some example_ast
      else None)"

section \<open>Properties\<close>

subsection \<open>Python strings\<close>






subsection \<open>The field resolver\<close>



lemma set_available_fields:
  "finite md \<Longrightarrow> set (available_fields_of sm md) = fst ` set sm \<union> md"
  by (simp add: available_fields_of_def)






text \<open>
  \<^bold>\<open>C6\<close>, as stated: a field whose base segment is no key of the schema mapping
  and in neither the entity fields nor the metadata fields always fails with
  \<open>invalid_field\<close>.  \<open>to_sql\<close> validates the operator and the value before it looks at the
  result of the lookup (line 117, "early"), so such a field fails with the validation's
  error when there is one: \<open>foo_id = abc\<close> raises \<open>invalid_operation\<close> (an id field wants
  an integer), although \<open>foo_id\<close> exists nowhere.
\<close>

theorem unknown_field_counterexample:
  "map_of example_schema (base_field_of ''foo_id'') = None
   \<and> base_field_of ''foo_id'' \<notin> {}
   \<and> base_field_of ''foo_id'' \<notin> {''tag''}
   \<and> map_sum error_type id
        (to_sql (Field [''foo_id'']) example_schema (StrV ''abc'') (Some ''='')
           {''tag''} {''name''} {} {})
       = Inl ''invalid_operation''"
  by code_simp

text \<open>
  \<^bold>\<open>C6\<close>, amended: for such a field no SQL is produced.  Resolution fails with the error of
  the operator/value validation if that raises one, and otherwise (always, when there is no
  operator or no value) with an \<open>invalid_field\<close> error, which names the dotted field path in
  its field name and its message, and whose user message lists the first ten, at most, of
  the sorted known field names.
\<close>

theorem unknown_field_is_rejected:
  assumes "parts f = p0 # rest"
    and "map_of sm (base_field_of p0) = None"
    and "base_field_of p0 \<notin> ef"
    and "base_field_of p0 \<notin> md"
    and "finite md"
  shows "to_sql f sm v op md sf idf ef =
           (case validate_operation_compatibility (base_field_of p0) op v md sf idf of
              Inl e \<Rightarrow> Inl e
            | Inr u \<Rightarrow> Inl (invalid_field_error sm md (parts f)))
       \<and> is_SearchValidationError (invalid_field_error sm md (parts f))
       \<and> error_type (invalid_field_error sm md (parts f)) = ''invalid_field''
       \<and> field_name (invalid_field_error sm md (parts f)) = Some (join ''.'' (parts f))
       \<and> message (invalid_field_error sm md (parts f)) =
           ''Field '' @ [CHR 0x27] @ join ''.'' (parts f) @ [CHR 0x27]
             @ '' does not exist in the database schema or metadata''
       \<and> user_message (invalid_field_error sm md (parts f)) =
           Some (''The field '' @ [CHR 0x27] @ join ''.'' (parts f) @ [CHR 0x27]
             @ '' is not available for searching. Available fields include: ''
             @ join '', '' (take 10 (available_fields_of sm md))
             @ (if length (available_fields_of sm md) > 10 then ''...'' else []))
       \<and> length (take 10 (available_fields_of sm md)) \<le> 10
       \<and> set (take 10 (available_fields_of sm md)) \<subseteq> fst ` set sm \<union> md"
proof -
  have "to_sql f sm v op md sf idf ef =
           (case validate_operation_compatibility (base_field_of p0) op v md sf idf of
              Inl e \<Rightarrow> Inl e
            | Inr u \<Rightarrow> Inl (invalid_field_error sm md (parts f)))"
    using assms(1-4) by (simp add: to_sql_def Let_def split: sum.splits)
  moreover have "set (take 10 (available_fields_of sm md)) \<subseteq> fst ` set sm \<union> md"
    using set_take_subset[of 10 "available_fields_of sm md"] set_available_fields[OF assms(5), of sm]
    by simp
  ultimately show ?thesis
    by (simp add: invalid_field_error_def Let_def)
qed

theorem unknown_field_is_rejected_witness:
  "parts (Field [''nonexistent_field'']) = ''nonexistent_field'' # []
   \<and> map_of example_schema (base_field_of ''nonexistent_field'') = None
   \<and> base_field_of ''nonexistent_field'' \<notin> {}
   \<and> base_field_of ''nonexistent_field'' \<notin> {''tag''}
   \<and> finite {''tag''}
   \<and> to_sql (Field [''nonexistent_field'']) example_schema (IntV 1) (Some ''='')
        {''tag''} {''name''} {} {}
       = Inl (invalid_field_error example_schema {''tag''} [''nonexistent_field''])
   \<and> field_name (invalid_field_error example_schema {''tag''} [''nonexistent_field''])
       = Some ''nonexistent_field''"
proof -
  have h1: "parts (Field [''nonexistent_field'']) = ''nonexistent_field'' # []" by simp
  have h2: "map_of example_schema (base_field_of ''nonexistent_field'') = None" by code_simp
  have h3: "base_field_of ''nonexistent_field'' \<notin> {}" by simp
  have h4: "base_field_of ''nonexistent_field'' \<notin> {''tag''}" by code_simp
  have h5: "finite {''tag''}" by simp
  have v: "validate_operation_compatibility (base_field_of ''nonexistent_field'') (Some ''='')
             (IntV 1) {''tag''} {''name''} {} = Inr ()"
    by code_simp
  show ?thesis
    using unknown_field_is_rejected[OF h1 h2 h3 h4 h5, of "IntV 1" "Some ''=''" "{''name''}" "{}"]
      h1 h2 h3 h4 h5 v
    by simp
qed

subsection \<open>The translator\<close>







text \<open>
  The resolver looks a first segment that ends in \<open>_name\<close> up without that suffix, also when
  the segment is itself a metadata key: with the metadata key \<open>file_name\<close> and nothing known
  as \<open>file\<close>, the field \<open>file_name\<close> is not resolved, which is what the third hypothesis
  above excludes.
\<close>

lemma metadata_key_with_name_suffix:
  "''file_name'' \<in> available_metadata_fields example_translator
   \<and> \<not> resolves (schema_mapping example_translator) (available_metadata_fields example_translator)
          (entity_fields example_translator) (base_field_of ''file_name'')
   \<and> map_sum error_type fst
        (translate no_strptime (Comparison (Field [''file_name'']) '':'' (StrV ''*''))
           example_translator)
       = Inl ''invalid_field''"
  by code_simp

text \<open>
  \<^bold>\<open>C9\<close>.  \<open>reset\<close>, given the whole schema context, leaves nothing of the state
  it is applied to: the translation of a node after it is the same (the SQL string, the
  parameter list and the final state, or the error) whatever the translator held before,
  in particular what an earlier translation of the same node left in it.
\<close>

theorem translate_after_reset_deterministic:
  "translate strptime node (reset t1 sm (Some gsf) (Some md) (Some sf) (Some idf) (Some ef))
   = translate strptime node (reset t2 sm (Some gsf) (Some md) (Some sf) (Some idf) (Some ef))"
  by (simp add: reset_def)


subsection \<open>The query assembler and the recovery layer\<close>

text \<open>
  \<^bold>\<open>C10\<close>.  While the schema mapping is empty, as before \<open>setup\<close>, \<open>parse_query\<close>
  raises the \<open>RuntimeError\<close> of line 1202 for every query string and sort arguments, and
  returns no SQL.
\<close>

theorem parse_query_before_setup:
  "qp_schema_mapping qp = [] \<Longrightarrow>
   parse_query lark strptime qp query_string sort_by sort_order
     = Inl (RuntimeError ''QueryParser not set up.'')"
  by (simp add: parse_query_def)

theorem parse_query_before_setup_witness:
  "qp_schema_mapping new_query_parser = []
   \<and> parse_query example_lark no_strptime new_query_parser example_query ''name'' ''asc''
       = Inl (RuntimeError ''QueryParser not set up.'')"
proof -
  have h: "qp_schema_mapping new_query_parser = []"
    by (simp add: new_query_parser_def)
  show ?thesis
    using parse_query_before_setup[OF h, of example_lark no_strptime example_query "''name''" "''asc''"] h
    by simp
qed











subsection \<open>Placeholders and parameters\<close>

lemma dollar_free_append [simp]: "dollar_free (a @ b) \<longleftrightarrow> dollar_free a \<and> dollar_free b"
  by (auto simp: dollar_free_def)

lemma dollar_free_Cons [simp]: "dollar_free (c # s) \<longleftrightarrow> c \<noteq> CHR ''$'' \<and> dollar_free s"
  by (auto simp: dollar_free_def)

lemma dollar_free_Nil [simp]: "dollar_free []"
  by (simp add: dollar_free_def)

lemma dollar_not_digit [simp]: "\<not> is_digit CHR ''$''"
  by (simp add: is_digit_def)







lemma digit_char_props: "d < 10 \<Longrightarrow> is_digit (digit_char d) \<and> digit_val (digit_char d) = d"
  by (simp add: is_digit_def digit_val_def digit_char_def less_eq_char_def)


lemma show_nat_dollar_free [simp]: "dollar_free (show_nat k)"
proof (induction k rule: show_nat.induct)
  case (1 n)
  have "digit_char m \<noteq> CHR ''$''" if "m < 10" for m
    using digit_char_props[OF that] by (auto simp: is_digit_def)
  then show ?case
    using 1 by (cases "n < 10") (simp_all add: show_nat.simps[of n])
qed






































































end
